theory Spec2Isabelle
  imports Complex_Main "HOL-Library.Sublist" "HOL-Library.Multiset"
begin

section \<open>Mythweaver rules engine: data model\<close>

text \<open>
  Embedding of \<^verbatim>\<open>app/services/rules_engine.py\<close>. Python integers are unbounded,
  so scores, totals and margins are \<open>int\<close>. Exceptions are values of
  \<open>py_exception\<close>; a function that can raise returns \<open>py_exception + 'a\<close>.
\<close>

datatype EdgeType = NONE | ADVANTAGE | DISADVANTAGE

datatype Outcome = FAILURE | NEAR_MISS | SUCCESS | STRONG_SUCCESS

record CheckResult =
  total :: int
  difficulty :: int
  margin :: int
  outcome :: Outcome
  dice_rolls :: "int list"
  attribute_bonus :: int
  skill_rank :: int
  situational_modifier :: int
  edge_type :: EdgeType

datatype py_exception =
    ValidationError string
  | TypeError
  | KeyError string
  | ZeroDivisionError

text \<open>
  Sequencing of a computation that may raise: the exception of the first part, if
  any, is the exception of the whole; otherwise the rest runs on its value.
\<close>

definition propagate :: "py_exception + 'a \<Rightarrow> ('a \<Rightarrow> py_exception + 'b) \<Rightarrow> py_exception + 'b" where
  "propagate r f = (case r of Inl e \<Rightarrow> Inl e | Inr v \<Rightarrow> f v)"

section \<open>Dice and bonus calculators\<close>

text \<open>
  \<^verbatim>\<open>random.randint(a, b)\<close> belongs to the standard library. It is a parameter of
  the model: a function from the bounds and the generator state to the drawn
  number and the next state.
\<close>

type_synonym 'g randint = "int \<Rightarrow> int \<Rightarrow> 'g \<Rightarrow> int \<times> 'g"

definition roll_d12 :: "'g randint \<Rightarrow> 'g \<Rightarrow> int \<times> 'g" where
  "roll_d12 rnd g = rnd 1 12 g"

text \<open>Python's \<^verbatim>\<open>a // b\<close> on integers: floor division, raising on a zero divisor.\<close>

definition py_floordiv :: "int \<Rightarrow> int \<Rightarrow> py_exception + int" where
  "py_floordiv a b = (if b = 0 then Inl ZeroDivisionError else Inr (a div b))"

definition calculate_attribute_bonus :: "int \<Rightarrow> py_exception + int" where
  "calculate_attribute_bonus score = py_floordiv score 2"

definition calculate_skill_rank :: "int \<Rightarrow> py_exception + int" where
  "calculate_skill_rank score = py_floordiv score 4"

section \<open>Check resolution\<close>

text \<open>
  The parameters \<^verbatim>\<open>difficulty\<close> and \<^verbatim>\<open>situational_modifier\<close> carry a prime,
  since the unprimed names are the fields of \<open>CheckResult\<close>.
\<close>

definition perform_check ::
  "'g randint \<Rightarrow> int \<Rightarrow> int \<Rightarrow> int \<Rightarrow> EdgeType \<Rightarrow> int \<Rightarrow> 'g
     \<Rightarrow> py_exception + (CheckResult \<times> 'g)" where
  "perform_check rnd attribute_score skill_score difficulty' edge situational_modifier' g =
    propagate (calculate_attribute_bonus attribute_score) (\<lambda>attribute_bonus.
    propagate (calculate_skill_rank skill_score) (\<lambda>skill_rank.
       let (dice_rolls, dice_result, g') =
             (if edge = ADVANTAGE then
                let (roll1, g1) = roll_d12 rnd g;
                    (roll2, g2) = roll_d12 rnd g1
                in ([roll1, roll2], max roll1 roll2, g2)
              else if edge = DISADVANTAGE then
                let (roll1, g1) = roll_d12 rnd g;
                    (roll2, g2) = roll_d12 rnd g1
                in ([roll1, roll2], min roll1 roll2, g2)
              else
                let (dice_result, g1) = roll_d12 rnd g
                in ([dice_result], dice_result, g1));
           total = dice_result + attribute_bonus + skill_rank + situational_modifier';
           margin = total - difficulty';
           outcome =
             (if margin \<ge> 5 then STRONG_SUCCESS
              else if margin \<ge> 0 then SUCCESS
              else if margin \<ge> - 2 then NEAR_MISS
              else FAILURE)
       in Inr (\<lparr>total = total,
                 difficulty = difficulty',
                 margin = margin,
                 outcome = outcome,
                 dice_rolls = dice_rolls,
                 attribute_bonus = attribute_bonus,
                 skill_rank = skill_rank,
                 situational_modifier = situational_modifier',
                 edge_type = edge\<rparr>, g')))"

text \<open>
  A generator that replays a fixed script of draws, clamped to the requested
  bounds; used to run \<open>perform_check\<close> on concrete dice.
\<close>

definition scripted_randint :: "int list randint" where
  "scripted_randint lo hi g =
     (case g of [] \<Rightarrow> (lo, []) | x # xs \<Rightarrow> (max lo (min hi x), xs))"

section \<open>Derived stats\<close>

definition calculate_max_hp :: "int \<Rightarrow> int" where
  "calculate_max_hp might_score = 8 + (might_score * 2)"

definition calculate_max_focus :: "int \<Rightarrow> int \<Rightarrow> int" where
  "calculate_max_focus wits_score presence_score = 4 + wits_score + presence_score"

definition calculate_inventory_slots :: "int \<Rightarrow> int" where
  "calculate_inventory_slots might_score = 8 + might_score"

section \<open>Python values and dictionaries\<close>

text \<open>
  The validators are annotated \<^verbatim>\<open>Dict[str, int]\<close>, which Python does not enforce.
  Dictionary values are therefore taken from a small universe of Python values:
  integers, strings and \<^verbatim>\<open>None\<close>; the operations raise \<^verbatim>\<open>TypeError\<close> where Python
  does. Floats and booleans are outside this universe.

  A dictionary is the list of its items in insertion order (keys distinct);
  \<^verbatim>\<open>k in d\<close> and \<^verbatim>\<open>d[k]\<close> go through \<open>map_of\<close>, \<^verbatim>\<open>d.items()\<close> is the list itself.
\<close>

datatype py_value = PyInt int | PyStr string | PyNone

type_synonym 'v py_dict = "(string \<times> 'v) list"

definition py_contains :: "'v py_dict \<Rightarrow> string \<Rightarrow> bool" where
  "py_contains d k = (map_of d k \<noteq> None)"

definition py_getitem :: "'v py_dict \<Rightarrow> string \<Rightarrow> py_exception + 'v" where
  "py_getitem d k = (case map_of d k of None \<Rightarrow> Inl (KeyError k) | Some v \<Rightarrow> Inr v)"

text \<open>\<^verbatim>\<open>n <= v\<close>, \<^verbatim>\<open>v <= n\<close> and \<^verbatim>\<open>v > n\<close> for an integer literal \<open>n\<close>.\<close>

fun py_int_le :: "int \<Rightarrow> py_value \<Rightarrow> py_exception + bool" where
  "py_int_le n (PyInt v) = Inr (n \<le> v)"
| "py_int_le n (PyStr v) = Inl TypeError"
| "py_int_le n PyNone = Inl TypeError"

fun py_le_int :: "py_value \<Rightarrow> int \<Rightarrow> py_exception + bool" where
  "py_le_int (PyInt v) n = Inr (v \<le> n)"
| "py_le_int (PyStr v) n = Inl TypeError"
| "py_le_int PyNone n = Inl TypeError"

fun py_gt_int :: "py_value \<Rightarrow> int \<Rightarrow> py_exception + bool" where
  "py_gt_int (PyInt v) n = Inr (v > n)"
| "py_gt_int (PyStr v) n = Inl TypeError"
| "py_gt_int PyNone n = Inl TypeError"

text \<open>\<^verbatim>\<open>v != n\<close> for an integer literal \<open>n\<close>: never raises.\<close>

fun py_ne_int :: "py_value \<Rightarrow> int \<Rightarrow> bool" where
  "py_ne_int (PyInt v) n = (v \<noteq> n)"
| "py_ne_int (PyStr v) n = True"
| "py_ne_int PyNone n = True"

text \<open>The chained comparison \<^verbatim>\<open>0 <= score <= 20\<close>: the second test runs only if the first holds.\<close>

definition py_0_le_le_20 :: "py_value \<Rightarrow> py_exception + bool" where
  "py_0_le_le_20 score =
     propagate (py_int_le 0 score) (\<lambda>c. if c then py_le_int score 20 else Inr False)"

fun py_add :: "py_value \<Rightarrow> py_value \<Rightarrow> py_exception + py_value" where
  "py_add (PyInt a) (PyInt b) = Inr (PyInt (a + b))"
| "py_add (PyStr a) (PyStr b) = Inr (PyStr (a @ b))"
| "py_add a b = Inl TypeError"

text \<open>
  \<^verbatim>\<open>sum(d[k] for k in keys)\<close> with the running total \<open>acc\<close> (0 at the start): each
  item is looked up, then added.
\<close>

fun py_sum_getitems :: "py_value py_dict \<Rightarrow> string list \<Rightarrow> py_value \<Rightarrow> py_exception + py_value" where
  "py_sum_getitems d [] acc = Inr acc"
| "py_sum_getitems d (k # rest) acc =
     propagate (py_getitem d k) (\<lambda>v.
     propagate (py_add acc v) (\<lambda>acc'. py_sum_getitems d rest acc'))"

text \<open>Decimal text of an integer, as \<^verbatim>\<open>str\<close> and f-strings print it.\<close>

fun str_nat :: "nat \<Rightarrow> string" where
  "str_nat n =
     (if n < 10 then [''0123456789'' ! n]
      else str_nat (n div 10) @ [''0123456789'' ! (n mod 10)])"

declare str_nat.simps [simp del]

definition str_int :: "int \<Rightarrow> string" where
  "str_int i = (if i < 0 then CHR ''-'' # str_nat (nat (- i)) else str_nat (nat i))"

fun py_str :: "py_value \<Rightarrow> string" where
  "py_str (PyInt v) = str_int v"
| "py_str (PyStr v) = v"
| "py_str PyNone = ''None''"

section \<open>Character creation validation\<close>

definition required_attrs :: "string list" where
  "required_attrs = [''might'', ''agility'', ''wits'', ''presence'']"

definition required_skills :: "string list" where
  "required_skills = [''Blade'', ''Bow'', ''Brawl'', ''Sneak'', ''Survival'',
                      ''Lore'', ''Craft'', ''Influence'', ''Insight'', ''Channel'']"

text \<open>The loop over \<^verbatim>\<open>required_attrs\<close> (lines 188-194).\<close>

fun attributes_loop :: "py_value py_dict \<Rightarrow> string list \<Rightarrow> py_exception + unit" where
  "attributes_loop attributes [] = Inr ()"
| "attributes_loop attributes (attr # rest) =
     (if \<not> py_contains attributes attr then
        Inl (ValidationError (''Missing attribute: '' @ attr))
      else
        propagate (py_getitem attributes attr) (\<lambda>score.
        propagate (py_0_le_le_20 score) (\<lambda>in_range.
          if \<not> in_range then
            Inl (ValidationError
                  (''Attribute '' @ attr @ '' must be 0-20, got '' @ py_str score))
          else attributes_loop attributes rest)))"

text \<open>The loop over \<^verbatim>\<open>required_skills\<close> (lines 205-211).\<close>

fun skills_loop :: "py_value py_dict \<Rightarrow> string list \<Rightarrow> py_exception + unit" where
  "skills_loop skills [] = Inr ()"
| "skills_loop skills (skill # rest) =
     (if \<not> py_contains skills skill then
        Inl (ValidationError (''Missing skill: '' @ skill))
      else
        propagate (py_getitem skills skill) (\<lambda>score.
        propagate (py_0_le_le_20 score) (\<lambda>in_range.
          if \<not> in_range then
            Inl (ValidationError
                  (''Skill '' @ skill @ '' must be 0-20, got '' @ py_str score))
          else skills_loop skills rest)))"

text \<open>
  The comprehension \<^verbatim>\<open>[skill for skill, score in skills.items() if score > 0]\<close>
  (line 214), over the items of the dictionary.
\<close>

fun selected_skills :: "py_value py_dict \<Rightarrow> py_exception + string list" where
  "selected_skills [] = Inr []"
| "selected_skills ((skill, score) # rest) =
     propagate (py_gt_int score 0) (\<lambda>positive.
     propagate (selected_skills rest) (\<lambda>selected.
       Inr (if positive then skill # selected else selected)))"

text \<open>The loop over \<^verbatim>\<open>talents\<close> (lines 224-226); a talent is a dictionary.\<close>

fun talents_loop :: "'v py_dict list \<Rightarrow> py_exception + unit" where
  "talents_loop [] = Inr ()"
| "talents_loop (talent # rest) =
     (if \<not> py_contains talent ''name'' then
        Inl (ValidationError ''Talent missing 'name' field'')
      else talents_loop rest)"

definition validate_character_creation ::
  "py_value py_dict \<Rightarrow> py_value py_dict \<Rightarrow> 'v py_dict list \<Rightarrow> string
     \<Rightarrow> py_exception + bool" where
  "validate_character_creation attributes skills talents path_id =
     propagate (attributes_loop attributes required_attrs) (\<lambda>_.
     propagate (py_sum_getitems attributes required_attrs (PyInt 0)) (\<lambda>attr_total.
       if py_ne_int attr_total 15 then
         Inl (ValidationError (''Attributes must sum to 15, got '' @ py_str attr_total))
       else
     propagate (skills_loop skills required_skills) (\<lambda>_.
     propagate (selected_skills skills) (\<lambda>selected.
       if length selected \<noteq> 3 then
         Inl (ValidationError
               (''Must select exactly 3 starting skills, got ''
                @ str_int (int (length selected))))
       else if length talents \<noteq> 2 then
         Inl (ValidationError
               (''Must select exactly 2 starting talents, got ''
                @ str_int (int (length talents))))
       else
     propagate (talents_loop talents) (\<lambda>_. Inr True)))))"

section \<open>Attribute allocation check\<close>

text \<open>The range loop of \<^verbatim>\<open>validate_attribute_allocation\<close> (lines 246-250).\<close>

fun allocation_range_loop :: "py_value py_dict \<Rightarrow> string list \<Rightarrow> py_exception + bool" where
  "allocation_range_loop attributes [] = Inr True"
| "allocation_range_loop attributes (attr # rest) =
     propagate (py_getitem attributes attr) (\<lambda>score.
     propagate (py_0_le_le_20 score) (\<lambda>in_range.
       if \<not> in_range then Inr False
       else allocation_range_loop attributes rest))"

text \<open>The body of the \<^verbatim>\<open>try\<close> block (lines 237-250).\<close>

definition validate_attribute_allocation_try :: "py_value py_dict \<Rightarrow> py_exception + bool" where
  "validate_attribute_allocation_try attributes =
     (if \<not> list_all (\<lambda>attr. py_contains attributes attr) required_attrs then Inr False
      else
        propagate (py_sum_getitems attributes required_attrs (PyInt 0)) (\<lambda>total.
          if py_ne_int total 15 then Inr False
          else allocation_range_loop attributes required_attrs))"

text \<open>The bare \<^verbatim>\<open>except\<close> turns every exception of the body into \<^verbatim>\<open>False\<close>.\<close>

definition validate_attribute_allocation :: "py_value py_dict \<Rightarrow> py_exception + bool" where
  "validate_attribute_allocation attributes =
     (case validate_attribute_allocation_try attributes of
        Inl e \<Rightarrow> Inr False
      | Inr b \<Rightarrow> Inr b)"

section \<open>Well-typed candidates and the rules of the validator\<close>

text \<open>
  A dictionary that respects the annotation \<^verbatim>\<open>Dict[str, int]\<close> is a list of
  string-integer items; \<open>int_dict\<close> embeds it into the dictionaries of Python
  values the validators run on.
\<close>

definition int_dict :: "int py_dict \<Rightarrow> py_value py_dict" where
  "int_dict d = map (\<lambda>(k, n). (k, PyInt n)) d"

text \<open>An entry is present and its score lies in the closed range 0 to 20.\<close>

definition entry_in_range :: "int py_dict \<Rightarrow> string \<Rightarrow> bool" where
  "entry_in_range d k = (case map_of d k of None \<Rightarrow> False | Some n \<Rightarrow> 0 \<le> n \<and> n \<le> 20)"

definition entry_score :: "int py_dict \<Rightarrow> string \<Rightarrow> int" where
  "entry_score d k = (case map_of d k of None \<Rightarrow> 0 | Some n \<Rightarrow> n)"

text \<open>The failure reported for an attribute, or a skill, that is missing or out of range.\<close>

definition attribute_failure :: "int py_dict \<Rightarrow> string \<Rightarrow> string" where
  "attribute_failure d k =
     (case map_of d k of
        None \<Rightarrow> ''Missing attribute: '' @ k
      | Some n \<Rightarrow> ''Attribute '' @ k @ '' must be 0-20, got '' @ str_int n)"

definition skill_failure :: "int py_dict \<Rightarrow> string \<Rightarrow> string" where
  "skill_failure d k =
     (case map_of d k of
        None \<Rightarrow> ''Missing skill: '' @ k
      | Some n \<Rightarrow> ''Skill '' @ k @ '' must be 0-20, got '' @ str_int n)"

text \<open>The items of the skills dictionary with a positive score.\<close>

definition positive_entries :: "int py_dict \<Rightarrow> int py_dict" where
  "positive_entries d = filter (\<lambda>(k, n). n > 0) d"

text \<open>
  The six rules, in their order of precedence: (1) the four attributes are present
  and in range, (2) they sum to 15, (3) the ten canonical skills are present and in
  range, (4) exactly three items of the skills dictionary have a positive score,
  (5) there are exactly two talents, (6) every talent has a \<^verbatim>\<open>name\<close> key.
\<close>

definition rule_attributes :: "int py_dict \<Rightarrow> bool" where
  "rule_attributes a = list_all (entry_in_range a) required_attrs"

definition attribute_sum :: "int py_dict \<Rightarrow> int" where
  "attribute_sum a = sum_list (map (entry_score a) required_attrs)"

definition rule_attribute_sum :: "int py_dict \<Rightarrow> bool" where
  "rule_attribute_sum a = (attribute_sum a = 15)"

definition rule_skills :: "int py_dict \<Rightarrow> bool" where
  "rule_skills s = list_all (entry_in_range s) required_skills"

definition rule_three_positive :: "int py_dict \<Rightarrow> bool" where
  "rule_three_positive s = (length (positive_entries s) = 3)"

definition rule_two_talents :: "'v py_dict list \<Rightarrow> bool" where
  "rule_two_talents ts = (length ts = 2)"

definition rule_talent_names :: "'v py_dict list \<Rightarrow> bool" where
  "rule_talent_names ts = list_all (\<lambda>t. map_of t ''name'' \<noteq> None) ts"

text \<open>
  Rule 4 in the two other readings of "exactly 3 skills non-zero": counted over the
  ten canonical skills only, and counted over all items with a score other than 0.
\<close>

definition rule_three_canonical_nonzero :: "int py_dict \<Rightarrow> bool" where
  "rule_three_canonical_nonzero s =
     (length (filter (\<lambda>k. entry_score s k \<noteq> 0) required_skills) = 3)"

definition rule_three_nonzero_entries :: "int py_dict \<Rightarrow> bool" where
  "rule_three_nonzero_entries s = (length (filter (\<lambda>(k, n). n \<noteq> 0) s) = 3)"

text \<open>
  The expected result of validation: the failure of the first violated rule, the
  first offending attribute or skill in the order of the required names, or
  acceptance when no rule is violated.
\<close>

definition first_violation ::
  "int py_dict \<Rightarrow> int py_dict \<Rightarrow> 'v py_dict list \<Rightarrow> py_exception + bool" where
  "first_violation a s ts =
     (case find (\<lambda>k. \<not> entry_in_range a k) required_attrs of
        Some k \<Rightarrow> Inl (ValidationError (attribute_failure a k))
      | None \<Rightarrow>
     if \<not> rule_attribute_sum a then
       Inl (ValidationError (''Attributes must sum to 15, got '' @ str_int (attribute_sum a)))
     else
     (case find (\<lambda>k. \<not> entry_in_range s k) required_skills of
        Some k \<Rightarrow> Inl (ValidationError (skill_failure s k))
      | None \<Rightarrow>
     if \<not> rule_three_positive s then
       Inl (ValidationError (''Must select exactly 3 starting skills, got ''
                              @ str_int (int (length (positive_entries s)))))
     else if \<not> rule_two_talents ts then
       Inl (ValidationError (''Must select exactly 2 starting talents, got ''
                              @ str_int (int (length ts))))
     else if \<not> rule_talent_names ts then
       Inl (ValidationError ''Talent missing 'name' field'')
     else Inr True))"

text \<open>
  The candidate of \<^verbatim>\<open>test_valid_character\<close> in \<^verbatim>\<open>tests/test_rules_engine.py\<close>. The
  value of a talent field is a string or a dictionary of strings.
\<close>

datatype talent_value = TalentStr string | TalentDict "(string \<times> string) list"

definition example_attributes :: "int py_dict" where
  "example_attributes = [(''might'', 6), (''agility'', 4), (''wits'', 3), (''presence'', 2)]"

definition example_skills :: "int py_dict" where
  "example_skills =
     [(''Blade'', 8), (''Bow'', 0), (''Brawl'', 0), (''Sneak'', 4), (''Survival'', 0),
      (''Lore'', 0), (''Craft'', 0), (''Influence'', 0), (''Insight'', 4), (''Channel'', 0)]"

definition example_talents :: "talent_value py_dict list" where
  "example_talents =
     [[(''name'', TalentStr ''Riposte''),
       (''requirements'', TalentDict [(''path'', ''blade'')])],
      [(''name'', TalentStr ''Shield Ally''),
       (''requirements'', TalentDict [(''path'', ''blade'')])]]"

section \<open>Check resolution: properties\<close>

lemmas perform_check_defs =
  perform_check_def propagate_def calculate_attribute_bonus_def
  calculate_skill_rank_def py_floordiv_def Let_def

lemmas scripted_defs = roll_d12_def scripted_randint_def

lemma floor_half: "\<lfloor>real_of_int a / 2\<rfloor> = a div 2"
  using floor_divide_of_int_eq [of a 2] by simp

lemma floor_quarter: "\<lfloor>real_of_int a / 4\<rfloor> = a div 4"
  using floor_divide_of_int_eq [of a 4] by simp

text \<open>
  C1: every call of \<open>perform_check\<close> returns a result whose margin is its total minus
  the difficulty passed in, and whose outcome is determined by the margin alone:
  STRONG_SUCCESS from 5 upwards, SUCCESS from 0 to 4, NEAR_MISS for -2 and -1,
  FAILURE below -2.
\<close>

theorem margin_law:
  "\<exists>res g'. perform_check rnd a s d e m g = Inr (res, g')
     \<and> difficulty res = d
     \<and> margin res = total res - difficulty res
     \<and> (margin res \<ge> 5 \<longrightarrow> outcome res = STRONG_SUCCESS)
     \<and> (0 \<le> margin res \<and> margin res < 5 \<longrightarrow> outcome res = SUCCESS)
     \<and> (- 2 \<le> margin res \<and> margin res < 0 \<longrightarrow> outcome res = NEAR_MISS)
     \<and> (margin res < - 2 \<longrightarrow> outcome res = FAILURE)"
  by (simp add: perform_check_defs split: prod.splits)

theorem margin_law_witness:
  "(\<exists>res g'. perform_check scripted_randint 6 8 7 NONE 0 [7] = Inr (res, g')
      \<and> margin res = 5 \<and> outcome res = STRONG_SUCCESS)
   \<and> (\<exists>res g'. perform_check scripted_randint 6 8 12 NONE 0 [7] = Inr (res, g')
      \<and> margin res = 0 \<and> outcome res = SUCCESS)
   \<and> (\<exists>res g'. perform_check scripted_randint 6 8 14 NONE 0 [7] = Inr (res, g')
      \<and> margin res = - 2 \<and> outcome res = NEAR_MISS)
   \<and> (\<exists>res g'. perform_check scripted_randint 6 8 15 NONE 0 [7] = Inr (res, g')
      \<and> margin res = - 3 \<and> outcome res = FAILURE)"
  using margin_law [of scripted_randint 6 8 7 NONE 0 "[7]"]
    margin_law [of scripted_randint 6 8 12 NONE 0 "[7]"]
    margin_law [of scripted_randint 6 8 14 NONE 0 "[7]"]
    margin_law [of scripted_randint 6 8 15 NONE 0 "[7]"]
  by (simp add: perform_check_defs scripted_defs)

text \<open>
  C2: with \<open>r1\<close> the first draw of the generator and \<open>r2\<close> the second, a check under
  ADVANTAGE consumes both draws, records \<open>[r1, r2]\<close> and builds its total on
  \<open>max r1 r2\<close>; under DISADVANTAGE it consumes both, records \<open>[r1, r2]\<close> and uses
  \<open>min r1 r2\<close>; under NONE it consumes one draw, records \<open>[r1]\<close> and uses \<open>r1\<close>.
\<close>

theorem edge_rule:
  assumes "roll_d12 rnd g = (r1, g1)" and "roll_d12 rnd g1 = (r2, g2)"
  shows "(\<exists>res. perform_check rnd a s d ADVANTAGE m g = Inr (res, g2)
            \<and> dice_rolls res = [r1, r2]
            \<and> total res = max r1 r2 + attribute_bonus res + skill_rank res
                            + situational_modifier res)
       \<and> (\<exists>res. perform_check rnd a s d DISADVANTAGE m g = Inr (res, g2)
            \<and> dice_rolls res = [r1, r2]
            \<and> total res = min r1 r2 + attribute_bonus res + skill_rank res
                            + situational_modifier res)
       \<and> (\<exists>res. perform_check rnd a s d NONE m g = Inr (res, g1)
            \<and> dice_rolls res = [r1]
            \<and> total res = r1 + attribute_bonus res + skill_rank res
                            + situational_modifier res)"
  using assms by (simp add: perform_check_defs)

theorem edge_rule_witness:
  "roll_d12 scripted_randint [3, 9, 5] = (3, [9, 5])
   \<and> roll_d12 scripted_randint [9, 5] = (9, [5])
   \<and> (\<exists>res. perform_check scripted_randint 6 8 11 ADVANTAGE 0 [3, 9, 5] = Inr (res, [5])
         \<and> dice_rolls res = [3, 9] \<and> total res = 14)
   \<and> (\<exists>res. perform_check scripted_randint 6 8 11 DISADVANTAGE 0 [3, 9, 5] = Inr (res, [5])
         \<and> dice_rolls res = [3, 9] \<and> total res = 8)
   \<and> (\<exists>res. perform_check scripted_randint 6 8 11 NONE 0 [3, 9, 5] = Inr (res, [9, 5])
         \<and> dice_rolls res = [3] \<and> total res = 8)"
proof -
  have h1: "roll_d12 scripted_randint [3, 9, 5] = (3, [9, 5])"
    by (simp add: scripted_defs)
  have h2: "roll_d12 scripted_randint [9, 5] = (9, [5])"
    by (simp add: scripted_defs)
  show ?thesis
    using h1 h2 edge_rule [OF h1 h2, of 6 8 11 0]
    by (simp add: perform_check_defs)
qed

text \<open>
  C3: with \<open>d\<close> the dice result picked by the edge rule, the total is
  \<open>d + floor (a / 2) + floor (s / 4) + m\<close>; the two floors are what
  \<open>calculate_attribute_bonus a\<close> and \<open>calculate_skill_rank s\<close> return, and the result
  records both of them, the situational modifier and the edge mode as given.
\<close>

theorem total_formula:
  assumes "roll_d12 rnd g = (r1, g1)" and "roll_d12 rnd g1 = (r2, g2)"
  shows "\<exists>res g'. perform_check rnd a s d e m g = Inr (res, g')
           \<and> total res =
               (case e of ADVANTAGE \<Rightarrow> max r1 r2 | DISADVANTAGE \<Rightarrow> min r1 r2 | NONE \<Rightarrow> r1)
               + \<lfloor>real_of_int a / 2\<rfloor> + \<lfloor>real_of_int s / 4\<rfloor> + m
           \<and> calculate_attribute_bonus a = Inr \<lfloor>real_of_int a / 2\<rfloor>
           \<and> calculate_skill_rank s = Inr \<lfloor>real_of_int s / 4\<rfloor>
           \<and> attribute_bonus res = \<lfloor>real_of_int a / 2\<rfloor>
           \<and> skill_rank res = \<lfloor>real_of_int s / 4\<rfloor>
           \<and> situational_modifier res = m
           \<and> edge_type res = e"
  using assms by (cases e) (simp_all add: perform_check_defs floor_half floor_quarter)

theorem total_formula_witness:
  "roll_d12 scripted_randint [3, 9, 5] = (3, [9, 5])
   \<and> roll_d12 scripted_randint [9, 5] = (9, [5])
   \<and> (\<exists>res g'. perform_check scripted_randint 7 9 11 ADVANTAGE (- 1) [3, 9, 5] = Inr (res, g')
         \<and> total res = 9 + 3 + 2 + - 1
         \<and> calculate_attribute_bonus 7 = Inr 3
         \<and> calculate_skill_rank 9 = Inr 2
         \<and> attribute_bonus res = 3 \<and> skill_rank res = 2
         \<and> situational_modifier res = - 1 \<and> edge_type res = ADVANTAGE)"
proof -
  have h1: "roll_d12 scripted_randint [3, 9, 5] = (3, [9, 5])"
    by (simp add: scripted_defs)
  have h2: "roll_d12 scripted_randint [9, 5] = (9, [5])"
    by (simp add: scripted_defs)
  show ?thesis
    using h1 h2 total_formula [OF h1 h2, of 7 9 11 ADVANTAGE "- 1"]
    by (simp add: perform_check_defs)
qed

text \<open>
  C6: for all integer scores, difficulty and modifier and every edge mode,
  \<open>perform_check\<close> returns a result and raises nothing; the two bonus calculators
  return an integer for every integer argument.
\<close>

theorem perform_check_total:
  "(\<exists>res g'. perform_check rnd a s d e m g = Inr (res, g'))
   \<and> (\<exists>b. calculate_attribute_bonus a = Inr b)
   \<and> (\<exists>k. calculate_skill_rank s = Inr k)"
  by (simp add: perform_check_defs split: prod.splits)

text \<open>
  C10: the calculators floor towards minus infinity: a negative score gives a
  negative bonus and a negative rank (-1 gives bonus -1, -3 gives rank -1), so a
  check made with a negative attribute score, or a negative skill score, on the
  same dice has a strictly lower total than the check made with that score at 0.
\<close>

theorem negative_scores_floor:
  assumes "score < 0"
  shows "(\<exists>b. calculate_attribute_bonus score = Inr b \<and> b < 0
              \<and> b = \<lfloor>real_of_int score / 2\<rfloor>)
       \<and> (\<exists>k. calculate_skill_rank score = Inr k \<and> k < 0
              \<and> k = \<lfloor>real_of_int score / 4\<rfloor>)
       \<and> calculate_attribute_bonus (- 1) = Inr (- 1)
       \<and> calculate_skill_rank (- 3) = Inr (- 1)
       \<and> (\<exists>res res0 g'. perform_check rnd score s d e m g = Inr (res, g')
              \<and> perform_check rnd 0 s d e m g = Inr (res0, g')
              \<and> total res < total res0)
       \<and> (\<exists>res res0 g'. perform_check rnd a score d e m g = Inr (res, g')
              \<and> perform_check rnd a 0 d e m g = Inr (res0, g')
              \<and> total res < total res0)"
proof -
  have b: "score div 2 < 0" and k: "score div 4 < 0"
    using assms by simp_all
  show ?thesis
    using b k
    by (simp add: perform_check_defs floor_half floor_quarter split: prod.splits)
qed

theorem negative_scores_floor_witness:
  "(- 5 :: int) < 0
   \<and> calculate_attribute_bonus (- 5) = Inr (- 3)
   \<and> calculate_skill_rank (- 5) = Inr (- 2)
   \<and> (\<exists>res res0 g'. perform_check scripted_randint (- 5) 8 11 NONE 0 [7] = Inr (res, g')
          \<and> perform_check scripted_randint 0 8 11 NONE 0 [7] = Inr (res0, g')
          \<and> total res = 6 \<and> total res0 = 9)"
proof -
  have h: "(- 5 :: int) < 0" by simp
  show ?thesis
    using h negative_scores_floor [OF h, of scripted_randint 8 11 NONE 0 "[7]" 0]
    by (simp add: perform_check_defs scripted_defs)
qed

section \<open>Derived stats: formulas\<close>

text \<open>
  C8: for all integer scores, \<open>calculate_max_hp m = 8 + 2 * m\<close>,
  \<open>calculate_max_focus w p = 4 + w + p\<close> and \<open>calculate_inventory_slots m = 8 + m\<close>;
  in particular max HP of might 3 is 14, max focus of wits 4 and presence 2 is 10,
  and might 3 gives 11 inventory slots.
\<close>

theorem derived_stats_formulas:
  "calculate_max_hp m = 8 + 2 * m
   \<and> calculate_max_focus w p = 4 + w + p
   \<and> calculate_inventory_slots m = 8 + m
   \<and> calculate_max_hp 3 = 14
   \<and> calculate_max_focus 4 2 = 10
   \<and> calculate_inventory_slots 3 = 11"
  by (simp add: calculate_max_hp_def calculate_max_focus_def calculate_inventory_slots_def)

section \<open>Character creation validation: the loops on well-typed dictionaries\<close>

lemmas rule_defs =
  rule_attributes_def rule_attribute_sum_def attribute_sum_def rule_skills_def
  rule_three_positive_def rule_two_talents_def rule_talent_names_def
  rule_three_canonical_nonzero_def rule_three_nonzero_entries_def
  entry_in_range_def entry_score_def positive_entries_def required_attrs_def
  required_skills_def

lemmas example_defs = example_attributes_def example_skills_def example_talents_def

lemma map_of_int_dict: "map_of (int_dict d) k = map_option PyInt (map_of d k)"
  by (induction d) (auto simp: int_dict_def)

lemma attributes_loop_int_dict:
  "attributes_loop (int_dict a) ks =
     (case find (\<lambda>k. \<not> entry_in_range a k) ks of
        None \<Rightarrow> Inr ()
      | Some k \<Rightarrow> Inl (ValidationError (attribute_failure a k)))"
  by (induction ks)
     (auto simp: py_contains_def py_getitem_def py_0_le_le_20_def propagate_def
        map_of_int_dict entry_in_range_def attribute_failure_def split: option.splits)

lemma skills_loop_int_dict:
  "skills_loop (int_dict s) ks =
     (case find (\<lambda>k. \<not> entry_in_range s k) ks of
        None \<Rightarrow> Inr ()
      | Some k \<Rightarrow> Inl (ValidationError (skill_failure s k)))"
  by (induction ks)
     (auto simp: py_contains_def py_getitem_def py_0_le_le_20_def propagate_def
        map_of_int_dict entry_in_range_def skill_failure_def split: option.splits)

lemma sum_getitems_int_dict:
  "list_all (\<lambda>k. map_of a k \<noteq> None) ks \<Longrightarrow>
   py_sum_getitems (int_dict a) ks (PyInt acc)
     = Inr (PyInt (acc + sum_list (map (entry_score a) ks)))"
  by (induction ks arbitrary: acc)
     (auto simp: py_getitem_def propagate_def map_of_int_dict entry_score_def
        split: option.splits)

lemma selected_skills_int_dict:
  "selected_skills (int_dict s) = Inr (map fst (positive_entries s))"
  by (induction s) (auto simp: int_dict_def positive_entries_def propagate_def)

lemma talents_loop_eq:
  "talents_loop ts =
     (if list_all (\<lambda>t. map_of t ''name'' \<noteq> None) ts then Inr ()
      else Inl (ValidationError ''Talent missing 'name' field''))"
  by (induction ts) (auto simp: py_contains_def)

lemma find_None_list_all: "(find (\<lambda>k. \<not> P k) ks = None) = list_all P ks"
  by (induction ks) auto

lemma in_range_present:
  "list_all (entry_in_range a) ks \<Longrightarrow> list_all (\<lambda>k. map_of a k \<noteq> None) ks"
  by (induction ks) (auto simp: entry_in_range_def split: option.splits)

lemma validate_int_dict:
  "validate_character_creation (int_dict a) (int_dict s) ts p = first_violation a s ts"
proof (cases "find (\<lambda>k. \<not> entry_in_range a k) required_attrs")
  case (Some k)
  then show ?thesis
    by (simp add: validate_character_creation_def first_violation_def
        attributes_loop_int_dict propagate_def)
next
  case None
  then have "list_all (entry_in_range a) required_attrs"
    by (simp add: find_None_list_all)
  then have pres: "list_all (\<lambda>k. map_of a k \<noteq> None) required_attrs"
    by (rule in_range_present)
  have sum: "py_sum_getitems (int_dict a) required_attrs (PyInt 0)
               = Inr (PyInt (attribute_sum a))"
    using sum_getitems_int_dict [OF pres, of 0] by (simp add: attribute_sum_def)
  show ?thesis
    using None
    by (simp add: validate_character_creation_def first_violation_def
        attributes_loop_int_dict skills_loop_int_dict selected_skills_int_dict
        talents_loop_eq sum propagate_def rule_attribute_sum_def rule_three_positive_def
        rule_two_talents_def rule_talent_names_def split: option.splits)
qed

lemma first_violation_accepts:
  "first_violation a s ts = Inr True
     \<longleftrightarrow> rule_attributes a \<and> rule_attribute_sum a \<and> rule_skills s
         \<and> rule_three_positive s \<and> rule_two_talents ts \<and> rule_talent_names ts"
  by (auto simp: first_violation_def rule_attributes_def rule_skills_def
      find_None_list_all [symmetric] split: option.splits)

lemma first_violation_single:
  "\<exists>msg. first_violation a s ts = Inr True
        \<or> first_violation a s ts = Inl (ValidationError msg)"
  by (auto simp: first_violation_def split: option.splits)

lemma example_rules:
  "rule_attributes example_attributes \<and> rule_attribute_sum example_attributes
   \<and> rule_skills example_skills \<and> rule_three_positive example_skills
   \<and> rule_two_talents example_talents \<and> rule_talent_names example_talents"
  by (simp add: rule_defs example_defs)

lemma str_int_4: "str_int 4 = ''4''"
  by code_simp

lemma str_int_17: "str_int 17 = ''17''"
  by code_simp

lemma str_int_22: "str_int 22 = ''22''"
  by code_simp

section \<open>Character creation validation: precedence of the attribute rules\<close>

text \<open>
  C4, as stated: the candidate with might 22, agility 4, wits 3 and presence 2 (sum
  31) and the valid skills and talents is rejected, but for the range of might, and
  the message does not mention "sum to 15".
\<close>

theorem might_22_counterexample:
  "validate_character_creation
      (int_dict [(''might'', 22), (''agility'', 4), (''wits'', 3), (''presence'', 2)])
      (int_dict example_skills) example_talents ''blade''
     = Inl (ValidationError ''Attribute might must be 0-20, got 22'')
   \<and> \<not> sublist ''sum to 15'' ''Attribute might must be 0-20, got 22''
   \<and> (22 + 4 + 3 + 2 :: int) \<noteq> 15"
proof -
  have raised: "validate_character_creation
      (int_dict [(''might'', 22), (''agility'', 4), (''wits'', 3), (''presence'', 2)])
      (int_dict example_skills) example_talents ''blade''
     = Inl (ValidationError ''Attribute might must be 0-20, got 22'')"
    by (simp add: validate_int_dict first_violation_def rule_defs attribute_failure_def
        str_int_22)
  have silent: "\<not> sublist ''sum to 15'' ''Attribute might must be 0-20, got 22''"
    by code_simp
  show ?thesis using raised silent by simp
qed

text \<open>
  C4, amended: when the four attributes are present and each lies in 0 to 20 (so
  might is not 22) and their sum is not 15, validation raises "Attributes must sum
  to 15, got N" with N the sum, which mentions "sum to 15", whatever the skills
  and talents are, even ill-typed ones: no skill rule is checked before.
\<close>

theorem attribute_sum_before_skills:
  assumes "map_of a ''might'' = Some m" and "map_of a ''agility'' = Some ag"
    and "map_of a ''wits'' = Some w" and "map_of a ''presence'' = Some p"
    and "0 \<le> m \<and> m \<le> 20" and "0 \<le> ag \<and> ag \<le> 20"
    and "0 \<le> w \<and> w \<le> 20" and "0 \<le> p \<and> p \<le> 20"
    and "m + ag + w + p \<noteq> 15"
  shows "validate_character_creation (int_dict a) skills talents path_id
           = Inl (ValidationError
                   (''Attributes must sum to 15, got '' @ str_int (m + ag + w + p)))
       \<and> sublist ''sum to 15''
            (''Attributes must sum to 15, got '' @ str_int (m + ag + w + p))"
proof -
  have loop: "attributes_loop (int_dict a) required_attrs = Inr ()"
    using assms
    by (simp add: attributes_loop_int_dict required_attrs_def entry_in_range_def
        del: attributes_loop.simps)
  have pres: "list_all (\<lambda>k. map_of a k \<noteq> None) required_attrs"
    using assms by (simp add: required_attrs_def)
  have sum: "py_sum_getitems (int_dict a) required_attrs (PyInt 0)
               = Inr (PyInt (m + ag + w + p))"
    using assms sum_getitems_int_dict [OF pres, of 0]
    by (simp add: required_attrs_def entry_score_def)
  have raised: "validate_character_creation (int_dict a) skills talents path_id
           = Inl (ValidationError
                   (''Attributes must sum to 15, got '' @ str_int (m + ag + w + p)))"
    using assms(9) by (simp add: validate_character_creation_def loop sum propagate_def)
  have "sublist ''sum to 15''
          (''Attributes must '' @ ''sum to 15'' @ ('', got '' @ str_int (m + ag + w + p)))"
    by (rule sublist_appendI)
  then have mentions: "sublist ''sum to 15''
          (''Attributes must sum to 15, got '' @ str_int (m + ag + w + p))"
    by simp
  show ?thesis using raised mentions by simp
qed

theorem attribute_sum_before_skills_witness:
  "validate_character_creation
      (int_dict [(''might'', 8), (''agility'', 4), (''wits'', 3), (''presence'', 2)])
      [(''Blade'', PyNone)] ([] :: talent_value py_dict list) ''blade''
     = Inl (ValidationError ''Attributes must sum to 15, got 17'')
   \<and> sublist ''sum to 15'' ''Attributes must sum to 15, got 17''"
  using attribute_sum_before_skills
    [of "[(''might'', 8), (''agility'', 4), (''wits'', 3), (''presence'', 2)]" 8 4 3 2
        "[(''Blade'', PyNone)]" "[] :: talent_value py_dict list" "''blade''"]
  by (simp add: str_int_17)

section \<open>Character creation validation: the six rules\<close>

text \<open>
  C5, as stated, fails on a skills dictionary with an eleventh item, under both
  readings of "exactly 3 skills non-zero". With the extra item at 5, the ten
  canonical skills are in range and exactly three of them are non-zero, and the
  other rules hold, yet the candidate is rejected. With the extra item at -5, four
  items are non-zero, yet the candidate is accepted.
\<close>

theorem six_rules_counterexample:
  "rule_attributes example_attributes \<and> rule_attribute_sum example_attributes
   \<and> rule_skills (example_skills @ [(''Magic'', 5)])
   \<and> rule_three_canonical_nonzero (example_skills @ [(''Magic'', 5)])
   \<and> rule_two_talents example_talents \<and> rule_talent_names example_talents
   \<and> validate_character_creation (int_dict example_attributes)
        (int_dict (example_skills @ [(''Magic'', 5)])) example_talents ''blade''
       = Inl (ValidationError ''Must select exactly 3 starting skills, got 4'')
   \<and> rule_skills (example_skills @ [(''Magic'', - 5)])
   \<and> \<not> rule_three_nonzero_entries (example_skills @ [(''Magic'', - 5)])
   \<and> validate_character_creation (int_dict example_attributes)
        (int_dict (example_skills @ [(''Magic'', - 5)])) example_talents ''blade''
       = Inr True"
  by (simp add: validate_int_dict first_violation_def rule_defs example_defs str_int_4)

text \<open>
  C5, amended: on a well-typed candidate, validation returns the failure of the
  first violated rule in the fixed order and nothing else, and accepts exactly when
  all six rules hold, where rule (4) is: exactly three items of the skills
  dictionary, canonical or not, have a score greater than 0. The valid example
  is accepted.
\<close>

theorem validation_first_violation:
  "validate_character_creation (int_dict a) (int_dict s) ts p = first_violation a s ts
   \<and> (validate_character_creation (int_dict a) (int_dict s) ts p = Inr True
        \<longleftrightarrow> rule_attributes a \<and> rule_attribute_sum a \<and> rule_skills s
            \<and> rule_three_positive s \<and> rule_two_talents ts \<and> rule_talent_names ts)
   \<and> (\<exists>msg. validate_character_creation (int_dict a) (int_dict s) ts p = Inr True
            \<or> validate_character_creation (int_dict a) (int_dict s) ts p
                = Inl (ValidationError msg))
   \<and> validate_character_creation (int_dict example_attributes) (int_dict example_skills)
        example_talents ''blade'' = Inr True"
proof -
  have eq: "validate_character_creation (int_dict a') (int_dict s') ts' p'
              = first_violation a' s' ts'"
    for a' s' and ts' :: "'b py_dict list" and p'
    by (rule validate_int_dict)
  have example: "first_violation example_attributes example_skills example_talents = Inr True"
    using example_rules by (simp add: first_violation_accepts)
  show ?thesis
    using first_violation_accepts [of a s ts] first_violation_single [of a s ts] example
    by (simp add: eq)
qed

theorem validation_first_violation_witness:
  "validate_character_creation (int_dict example_attributes) (int_dict example_skills)
      (tl example_talents) ''blade''
     = Inl (ValidationError ''Must select exactly 2 starting talents, got 1'')
   \<and> \<not> rule_two_talents (tl example_talents)
   \<and> validate_character_creation (int_dict example_attributes)
        (int_dict ((''Bow'', 4) # example_skills)) example_talents ''blade''
       = Inl (ValidationError ''Must select exactly 3 starting skills, got 4'')"
proof -
  have one: "str_int 1 = ''1''" by code_simp
  show ?thesis
    using validation_first_violation
        [of example_attributes example_skills "tl example_talents" "''blade''"]
      validation_first_violation
        [of example_attributes "(''Bow'', 4) # example_skills" example_talents "''blade''"]
    by (simp add: first_violation_def rule_defs example_defs one str_int_4)
qed

section \<open>Character creation validation: items beyond the ten canonical skills\<close>

lemma distinct_required_skills: "distinct required_skills"
  by (simp add: required_skills_def)

lemma positive_entries_count:
  assumes "distinct (map fst s)" and "set (map fst s) = set ks" and "distinct ks"
  shows "length (positive_entries s) = length (filter (\<lambda>k. entry_score s k > 0) ks)"
proof -
  have "filter (\<lambda>(k, n). n > 0) s = filter (\<lambda>(k, n). entry_score s k > 0) s"
    using assms(1) by (intro filter_cong) (auto simp: entry_score_def)
  then have "length (positive_entries s)
      = length (filter (\<lambda>k. entry_score s k > 0) (map fst s))"
    by (simp add: positive_entries_def filter_map comp_def case_prod_unfold)
  also have "\<dots> = size (filter_mset (\<lambda>k. entry_score s k > 0) (mset (map fst s)))"
    by (metis mset_filter size_mset)
  also have "mset (map fst s) = mset ks"
    using assms set_eq_iff_mset_eq_distinct [of "map fst s" ks] by blast
  also have "size (filter_mset (\<lambda>k. entry_score s k > 0) (mset ks))
      = length (filter (\<lambda>k. entry_score s k > 0) ks)"
    by (metis mset_filter size_mset)
  finally show ?thesis .
qed

lemma map_of_other_entry:
  "k \<noteq> x \<Longrightarrow> map_of (pre @ (x, v) # post) k = map_of (pre @ (x, v') # post) k"
  by (simp add: map_add_def map_of_append split: option.splits)

lemma find_agree:
  assumes "\<And>k. k \<in> set ks \<Longrightarrow> P k = Q k"
  shows "find P ks = find Q ks"
  using assms by (induction ks) auto

lemma extra_entry_magnitude:
  assumes "x \<notin> set required_skills" and "(v > 0) = (v' > 0)"
  shows "validate_character_creation (int_dict a) (int_dict (pre @ (x, v) # post)) ts p
       = validate_character_creation (int_dict a) (int_dict (pre @ (x, v') # post)) ts p"
proof -
  let ?s = "pre @ (x, v) # post" and ?s' = "pre @ (x, v') # post"
  have lookup: "map_of ?s k = map_of ?s' k" if "k \<in> set required_skills" for k
    using that assms(1) by (intro map_of_other_entry) auto
  have range: "entry_in_range ?s k = entry_in_range ?s' k" if "k \<in> set required_skills" for k
    using lookup [OF that] by (simp add: entry_in_range_def)
  have found: "find (\<lambda>k. \<not> entry_in_range ?s k) required_skills
             = find (\<lambda>k. \<not> entry_in_range ?s' k) required_skills"
    by (rule find_agree) (simp add: range)
  have failure: "skill_failure ?s k = skill_failure ?s' k"
    if "find (\<lambda>k. \<not> entry_in_range ?s' k) required_skills = Some k" for k
  proof -
    from that have "k \<in> set required_skills"
      by (auto simp: find_Some_iff)
    then show ?thesis using lookup by (simp add: skill_failure_def)
  qed
  have count: "length (positive_entries ?s) = length (positive_entries ?s')"
    using assms(2) by (simp add: positive_entries_def)
  show ?thesis
    unfolding validate_int_dict first_violation_def rule_three_positive_def found count
    by (auto split: option.splits simp: failure)
qed

text \<open>
  C9, as stated, fails for an extra item with a negative score: the ten canonical
  skills are in range with exactly three non-zero, the item \<^verbatim>\<open>Magic\<close> is not
  canonical and its score -1 is non-zero, yet the candidate is accepted.
\<close>

theorem extra_skill_entry_counterexample:
  "rule_skills (example_skills @ [(''Magic'', - 1)])
   \<and> rule_three_canonical_nonzero (example_skills @ [(''Magic'', - 1)])
   \<and> ''Magic'' \<notin> set required_skills
   \<and> map_of (example_skills @ [(''Magic'', - 1)]) ''Magic'' = Some (- 1)
   \<and> (- 1 :: int) \<noteq> 0
   \<and> validate_character_creation (int_dict example_attributes)
        (int_dict (example_skills @ [(''Magic'', - 1)])) example_talents ''blade''
       = Inr True"
  by (simp add: validate_int_dict first_violation_def rule_defs example_defs)

text \<open>
  C9, amended: take a candidate with valid attributes whose skills dictionary has
  the ten canonical skills, in range and exactly three of them non-zero, and one
  more item that is not canonical. If the score of that item is positive, the
  candidate is rejected with "Must select exactly 3 starting skills, got 4"; if it
  is zero or negative the item is not counted, and the candidate is accepted when
  the talents are valid. The score of an item that is not canonical matters only
  through its sign: replacing it by any score of the same sign, in range or not,
  leaves the result of validation unchanged.
\<close>

theorem extra_skill_entry:
  assumes attributes: "rule_attributes a" "rule_attribute_sum a"
    and dict: "distinct (map fst s)" "set (map fst s) = insert x (set required_skills)"
    and extra: "x \<notin> set required_skills" "map_of s x = Some v"
    and canonical: "rule_skills s" "rule_three_canonical_nonzero s"
  shows "(v > 0 \<longrightarrow>
            validate_character_creation (int_dict a) (int_dict s) ts p
              = Inl (ValidationError ''Must select exactly 3 starting skills, got 4''))
       \<and> (v \<le> 0 \<and> rule_two_talents ts \<and> rule_talent_names ts \<longrightarrow>
            validate_character_creation (int_dict a) (int_dict s) ts p = Inr True)
       \<and> (y \<notin> set required_skills \<and> (w > 0) = (w' > 0) \<longrightarrow>
            validate_character_creation (int_dict a) (int_dict (pre @ (y, w) # post)) ts p
              = validate_character_creation (int_dict a)
                  (int_dict (pre @ (y, w') # post)) ts p)"
proof -
  have keys: "set (map fst s) = set (x # required_skills)" "distinct (x # required_skills)"
    using dict(2) extra(1) distinct_required_skills by simp_all
  have nonneg: "0 \<le> entry_score s k" if "k \<in> set required_skills" for k
    using canonical(1) that
    by (auto simp: rule_skills_def list_all_iff entry_in_range_def entry_score_def
        split: option.splits)
  have "filter (\<lambda>k. entry_score s k > 0) required_skills
      = filter (\<lambda>k. entry_score s k \<noteq> 0) required_skills"
    by (rule filter_cong) (use nonneg in force)+
  then have three: "length (filter (\<lambda>k. entry_score s k > 0) required_skills) = 3"
    using canonical(2) by (simp add: rule_three_canonical_nonzero_def)
  have count: "length (positive_entries s) = (if v > 0 then 4 else 3)"
    using positive_entries_count [OF dict(1) keys] three extra(2)
    by (simp add: entry_score_def)
  have attrs: "find (\<lambda>k. \<not> entry_in_range a k) required_attrs = None"
    using attributes(1) by (simp add: find_None_list_all rule_attributes_def)
  have skills: "find (\<lambda>k. \<not> entry_in_range s k) required_skills = None"
    using canonical(1) by (simp add: find_None_list_all rule_skills_def)
  have rejected: "v > 0 \<longrightarrow>
            validate_character_creation (int_dict a) (int_dict s) ts p
              = Inl (ValidationError ''Must select exactly 3 starting skills, got 4'')"
    using attributes(2)
    by (simp add: validate_int_dict first_violation_def attrs skills count
        rule_three_positive_def str_int_4)
  have uncounted: "v \<le> 0 \<and> rule_two_talents ts \<and> rule_talent_names ts \<longrightarrow>
            validate_character_creation (int_dict a) (int_dict s) ts p = Inr True"
    using attributes(2)
    by (simp add: validate_int_dict first_violation_def attrs skills count
        rule_three_positive_def)
  have magnitude: "y \<notin> set required_skills \<and> (w > 0) = (w' > 0) \<longrightarrow>
            validate_character_creation (int_dict a) (int_dict (pre @ (y, w) # post)) ts p
              = validate_character_creation (int_dict a)
                  (int_dict (pre @ (y, w') # post)) ts p"
    using extra_entry_magnitude by blast
  show ?thesis using rejected uncounted magnitude by blast
qed

theorem extra_skill_entry_witness:
  "rule_attributes example_attributes \<and> rule_attribute_sum example_attributes
   \<and> distinct (map fst (example_skills @ [(''Magic'', 5)]))
   \<and> set (map fst (example_skills @ [(''Magic'', 5)])) = insert ''Magic'' (set required_skills)
   \<and> ''Magic'' \<notin> set required_skills
   \<and> map_of (example_skills @ [(''Magic'', 5)]) ''Magic'' = Some 5
   \<and> rule_skills (example_skills @ [(''Magic'', 5)])
   \<and> rule_three_canonical_nonzero (example_skills @ [(''Magic'', 5)])
   \<and> validate_character_creation (int_dict example_attributes)
        (int_dict (example_skills @ [(''Magic'', 5)])) example_talents ''blade''
       = Inl (ValidationError ''Must select exactly 3 starting skills, got 4'')
   \<and> validate_character_creation (int_dict example_attributes)
        (int_dict (example_skills @ (''Magic'', 5) # [])) example_talents ''blade''
       = validate_character_creation (int_dict example_attributes)
           (int_dict (example_skills @ (''Magic'', 99) # [])) example_talents ''blade''"
proof -
  have h1: "rule_attributes example_attributes" and h2: "rule_attribute_sum example_attributes"
    using example_rules by simp_all
  have keys: "map fst example_skills = required_skills"
    by (simp add: example_defs required_skills_def)
  have h5: "''Magic'' \<notin> set required_skills"
    by (simp add: required_skills_def)
  have h3: "distinct (map fst (example_skills @ [(''Magic'', 5)]))"
    using h5 distinct_required_skills by (simp add: keys)
  have h4: "set (map fst (example_skills @ [(''Magic'', 5)]))
              = insert ''Magic'' (set required_skills)"
    by (simp add: keys)
  have h6: "map_of (example_skills @ [(''Magic'', 5)]) ''Magic'' = Some 5"
    by (simp add: example_defs)
  have h7: "rule_skills (example_skills @ [(''Magic'', 5)])"
    by (simp add: rule_defs example_defs)
  have h8: "rule_three_canonical_nonzero (example_skills @ [(''Magic'', 5)])"
    by (simp add: rule_defs example_defs)
  note inst = extra_skill_entry [OF h1 h2 h3 h4 h5 h6 h7 h8,
        of example_talents "''blade''" "''Magic''" 5 99 example_skills "[]"]
  have pos: "(0 :: int) < 5" and same: "((0 :: int) < 5) = ((0 :: int) < 99)"
    by simp_all
  have r1: "validate_character_creation (int_dict example_attributes)
        (int_dict (example_skills @ [(''Magic'', 5)])) example_talents ''blade''
       = Inl (ValidationError ''Must select exactly 3 starting skills, got 4'')"
    using inst pos by blast
  have r2: "validate_character_creation (int_dict example_attributes)
        (int_dict (example_skills @ (''Magic'', 5) # [])) example_talents ''blade''
       = validate_character_creation (int_dict example_attributes)
           (int_dict (example_skills @ (''Magic'', 99) # [])) example_talents ''blade''"
    using inst h5 same by blast
  show ?thesis
    by (intro conjI h1 h2 h3 h4 h5 h6 h7 h8 r1 r2)
qed

section \<open>Attribute allocation check: properties\<close>

lemmas allocation_defs =
  validate_attribute_allocation_def validate_attribute_allocation_try_def required_attrs_def
  py_contains_def py_getitem_def py_0_le_le_20_def propagate_def

lemma allocation_missing:
  "map_of d ''might'' = None \<or> map_of d ''agility'' = None \<or> map_of d ''wits'' = None
     \<or> map_of d ''presence'' = None
   \<Longrightarrow> validate_attribute_allocation d = Inr False"
  by (auto simp: allocation_defs)

lemma allocation_ints:
  "map_of d ''might'' = Some (PyInt m) \<Longrightarrow> map_of d ''agility'' = Some (PyInt a) \<Longrightarrow>
   map_of d ''wits'' = Some (PyInt w) \<Longrightarrow> map_of d ''presence'' = Some (PyInt p) \<Longrightarrow>
   validate_attribute_allocation d
     = Inr (m + a + w + p = 15 \<and> 0 \<le> m \<and> m \<le> 20 \<and> 0 \<le> a \<and> a \<le> 20
            \<and> 0 \<le> w \<and> w \<le> 20 \<and> 0 \<le> p \<and> p \<le> 20)"
  by (simp add: allocation_defs)

lemma sum_getitems_Inr:
  "py_sum_getitems d ks (PyInt acc) = Inr v \<Longrightarrow>
   list_all (\<lambda>k. \<exists>n. map_of d k = Some (PyInt n)) ks"
proof (induction ks arbitrary: acc)
  case Nil
  then show ?case by simp
next
  case (Cons k ks)
  show ?case
  proof (cases "map_of d k")
    case None
    with Cons.prems show ?thesis
      by (simp add: py_getitem_def propagate_def)
  next
    case (Some x)
    with Cons show ?thesis
      by (cases x) (auto simp add: py_getitem_def propagate_def)
  qed
qed

lemma allocation_True_ints:
  assumes "validate_attribute_allocation d = Inr True"
  shows "list_all (\<lambda>k. \<exists>n. map_of d k = Some (PyInt n)) required_attrs"
proof -
  from assms obtain v where "py_sum_getitems d required_attrs (PyInt 0) = Inr v"
    by (auto simp: validate_attribute_allocation_def validate_attribute_allocation_try_def
        propagate_def split: sum.splits if_splits)
  then show ?thesis by (rule sum_getitems_Inr)
qed

text \<open>
  C7: \<open>validate_attribute_allocation\<close> always returns a boolean and raises nothing.
  It returns True exactly when might, agility, wits and presence are all present
  with integer values, each in 0 to 20, that sum to 15. It returns False when one
  of the four is missing, when the four integers do not sum to 15, and whenever
  the body of its \<^verbatim>\<open>try\<close> raises.
\<close>

theorem allocation_check:
  "(\<exists>b. validate_attribute_allocation d = Inr b)
   \<and> (validate_attribute_allocation d = Inr True \<longleftrightarrow>
        (\<exists>m a w p. map_of d ''might'' = Some (PyInt m) \<and> map_of d ''agility'' = Some (PyInt a)
           \<and> map_of d ''wits'' = Some (PyInt w) \<and> map_of d ''presence'' = Some (PyInt p)
           \<and> 0 \<le> m \<and> m \<le> 20 \<and> 0 \<le> a \<and> a \<le> 20
           \<and> 0 \<le> w \<and> w \<le> 20 \<and> 0 \<le> p \<and> p \<le> 20
           \<and> m + a + w + p = 15))
   \<and> ((\<exists>k \<in> set required_attrs. map_of d k = None)
        \<longrightarrow> validate_attribute_allocation d = Inr False)
   \<and> (map_of d ''might'' = Some (PyInt m') \<and> map_of d ''agility'' = Some (PyInt a')
        \<and> map_of d ''wits'' = Some (PyInt w') \<and> map_of d ''presence'' = Some (PyInt p')
        \<and> m' + a' + w' + p' \<noteq> 15
        \<longrightarrow> validate_attribute_allocation d = Inr False)
   \<and> ((\<exists>e. validate_attribute_allocation_try d = Inl e)
        \<longrightarrow> validate_attribute_allocation d = Inr False)"
proof -
  have never_raises: "\<exists>b. validate_attribute_allocation d = Inr b"
    by (cases "validate_attribute_allocation_try d")
       (auto simp add: validate_attribute_allocation_def)
  have accepted: "validate_attribute_allocation d = Inr True \<longleftrightarrow>
        (\<exists>m a w p. map_of d ''might'' = Some (PyInt m) \<and> map_of d ''agility'' = Some (PyInt a)
           \<and> map_of d ''wits'' = Some (PyInt w) \<and> map_of d ''presence'' = Some (PyInt p)
           \<and> 0 \<le> m \<and> m \<le> 20 \<and> 0 \<le> a \<and> a \<le> 20
           \<and> 0 \<le> w \<and> w \<le> 20 \<and> 0 \<le> p \<and> p \<le> 20
           \<and> m + a + w + p = 15)" (is "?L \<longleftrightarrow> ?R")
  proof
    assume l: ?L
    then obtain m a w p where ints: "map_of d ''might'' = Some (PyInt m)"
      "map_of d ''agility'' = Some (PyInt a)" "map_of d ''wits'' = Some (PyInt w)"
      "map_of d ''presence'' = Some (PyInt p)"
      using allocation_True_ints [OF l] by (auto simp: required_attrs_def)
    with l allocation_ints [OF ints] show ?R by simp
  next
    assume ?R
    then obtain m a w p where ints: "map_of d ''might'' = Some (PyInt m)"
      "map_of d ''agility'' = Some (PyInt a)" "map_of d ''wits'' = Some (PyInt w)"
      "map_of d ''presence'' = Some (PyInt p)"
      and rest: "0 \<le> m \<and> m \<le> 20 \<and> 0 \<le> a \<and> a \<le> 20
           \<and> 0 \<le> w \<and> w \<le> 20 \<and> 0 \<le> p \<and> p \<le> 20 \<and> m + a + w + p = 15"
      by blast
    show ?L using allocation_ints [OF ints] rest by simp
  qed
  have missing: "(\<exists>k \<in> set required_attrs. map_of d k = None)
        \<longrightarrow> validate_attribute_allocation d = Inr False"
    using allocation_missing [of d] by (auto simp: required_attrs_def)
  have wrong_sum: "map_of d ''might'' = Some (PyInt m') \<and> map_of d ''agility'' = Some (PyInt a')
        \<and> map_of d ''wits'' = Some (PyInt w') \<and> map_of d ''presence'' = Some (PyInt p')
        \<and> m' + a' + w' + p' \<noteq> 15
        \<longrightarrow> validate_attribute_allocation d = Inr False"
    using allocation_ints [of d m' a' w' p'] by simp
  have caught: "(\<exists>e. validate_attribute_allocation_try d = Inl e)
        \<longrightarrow> validate_attribute_allocation d = Inr False"
    by (auto simp: validate_attribute_allocation_def)
  show ?thesis using never_raises accepted missing wrong_sum caught by blast
qed

theorem allocation_check_witness:
  "validate_attribute_allocation (int_dict example_attributes) = Inr True
   \<and> validate_attribute_allocation
        (int_dict [(''might'', 8), (''agility'', 4), (''wits'', 3), (''presence'', 2)])
       = Inr False
   \<and> validate_attribute_allocation
        (int_dict [(''might'', 6), (''agility'', 4), (''wits'', 3)]) = Inr False
   \<and> validate_attribute_allocation_try
        [(''might'', PyInt 6), (''agility'', PyStr ''4''), (''wits'', PyInt 3),
         (''presence'', PyInt 2)] = Inl TypeError
   \<and> validate_attribute_allocation
        [(''might'', PyInt 6), (''agility'', PyStr ''4''), (''wits'', PyInt 3),
         (''presence'', PyInt 2)] = Inr False"
proof -
  let ?valid = "int_dict example_attributes"
  let ?seventeen = "int_dict [(''might'', 8), (''agility'', 4), (''wits'', 3), (''presence'', 2)]"
  let ?three = "int_dict [(''might'', 6), (''agility'', 4), (''wits'', 3)]"
  let ?text = "[(''might'', PyInt 6), (''agility'', PyStr ''4''), (''wits'', PyInt 3),
         (''presence'', PyInt 2)]"
  have "map_of ?valid ''might'' = Some (PyInt 6) \<and> map_of ?valid ''agility'' = Some (PyInt 4)
      \<and> map_of ?valid ''wits'' = Some (PyInt 3) \<and> map_of ?valid ''presence'' = Some (PyInt 2)"
    by (simp add: int_dict_def example_defs)
  then have "\<exists>m a w p. map_of ?valid ''might'' = Some (PyInt m)
           \<and> map_of ?valid ''agility'' = Some (PyInt a)
           \<and> map_of ?valid ''wits'' = Some (PyInt w) \<and> map_of ?valid ''presence'' = Some (PyInt p)
           \<and> 0 \<le> m \<and> m \<le> 20 \<and> 0 \<le> a \<and> a \<le> 20
           \<and> 0 \<le> w \<and> w \<le> 20 \<and> 0 \<le> p \<and> p \<le> 20
           \<and> m + a + w + p = 15"
    by (intro exI [of _ 6] exI [of _ 4] exI [of _ 3] exI [of _ 2]) simp
  with allocation_check [of ?valid] have c1: "validate_attribute_allocation ?valid = Inr True"
    by blast
  have "map_of ?seventeen ''might'' = Some (PyInt 8)
      \<and> map_of ?seventeen ''agility'' = Some (PyInt 4)
      \<and> map_of ?seventeen ''wits'' = Some (PyInt 3)
      \<and> map_of ?seventeen ''presence'' = Some (PyInt 2) \<and> (8 + 4 + 3 + 2 :: int) \<noteq> 15"
    by (simp add: int_dict_def)
  with allocation_check [of ?seventeen 8 4 3 2]
  have c2: "validate_attribute_allocation ?seventeen = Inr False"
    by blast
  have "\<exists>k \<in> set required_attrs. map_of ?three k = None"
    by (simp add: required_attrs_def int_dict_def)
  with allocation_check [of ?three] have c3: "validate_attribute_allocation ?three = Inr False"
    by blast
  have c4: "validate_attribute_allocation_try ?text = Inl TypeError"
    by (simp add: validate_attribute_allocation_try_def required_attrs_def
        py_contains_def py_getitem_def propagate_def)
  then have "\<exists>e. validate_attribute_allocation_try ?text = Inl e"
    by blast
  with allocation_check [of ?text] have c5: "validate_attribute_allocation ?text = Inr False"
    by blast
  show ?thesis using c1 c2 c3 c4 c5 by simp
qed

end
